theory Spec2Isabelle
  imports Main "HOL-Library.Word" "HOL-Library.Sublist"
begin

unbundle bit_operations_syntax

section \<open>Bytes, strings and errors\<close>

text \<open>
  A Go \<^verbatim>\<open>[]byte\<close> is a list of 8-bit words and a Go \<^verbatim>\<open>string\<close> is a list of
  characters (bytes as well). Where the source converts one into the other
  (\<^verbatim>\<open>string(output)\<close>) the model keeps a single representation.
\<close>

type_synonym byte = "8 word"
type_synonym bytes = "byte list"

text \<open>
  A Go \<^verbatim>\<open>error\<close> value that is not nil. \<open>Foreign m\<close> is an error made outside
  package util (a codec library, the mounter, os/exec), with its message; \<open>Errorf m\<close> is
  the value of \<^verbatim>\<open>fmt.Errorf\<close> with the formatted message \<open>m\<close> (the source never uses the
  \<^verbatim>\<open>%w\<close> verb, so no cause is kept); \<open>WithMessage e m\<close> is what \<^verbatim>\<open>errors.Wrapf\<close> of
  github.com/pkg/errors builds around a non-nil error \<open>e\<close>. A nil error is \<open>None\<close>.
\<close>

datatype error = Foreign string | Errorf string | WithMessage error string

text \<open>The \<^verbatim>\<open>Error()\<close> method: pkg/errors prints the message, a colon and the cause.\<close>

fun Error :: "error \<Rightarrow> string" where
  "Error (Foreign m) = m"
| "Error (Errorf m) = m"
| "Error (WithMessage e m) = m @ '': '' @ Error e"

text \<open>\<^verbatim>\<open>errors.Cause\<close>: the innermost error of a chain of wrappers.\<close>

fun Cause :: "error \<Rightarrow> error" where
  "Cause (WithMessage e m) = Cause e"
| "Cause e = e"

text \<open>
  \<^verbatim>\<open>errors.Wrapf(err, format, args...)\<close>, given the formatted message: pkg/errors
  documents "If err is nil, Wrapf returns nil."
\<close>

definition Wrapf :: "error option \<Rightarrow> string \<Rightarrow> error option" where
  "Wrapf err msg = (case err of None \<Rightarrow> None | Some e \<Rightarrow> Some (WithMessage e msg))"

subsection \<open>The verb \<^verbatim>\<open>%v\<close> of package fmt\<close>

text \<open>A string prints as itself, a slice of strings as its elements between brackets,
  separated by one space, an error as its message and a nil error as \<^verbatim>\<open><nil>\<close>.\<close>

fun Join :: "string list \<Rightarrow> string \<Rightarrow> string" where
  "Join [] sep = []"
| "Join [x] sep = x"
| "Join (x # y # xs) sep = x @ sep @ Join (y # xs) sep"

definition fmt_strings :: "string list \<Rightarrow> string" where
  "fmt_strings xs = ''['' @ Join xs '' '' @ '']''"

definition fmt_error :: "error option \<Rightarrow> string" where
  "fmt_error err = (case err of None \<Rightarrow> ''<nil>'' | Some e \<Rightarrow> Error e)"

subsection \<open>Package strings\<close>

text \<open>\<^verbatim>\<open>strings.Contains(s, substr)\<close>: \<open>substr\<close> occurs in \<open>s\<close> as a contiguous run.\<close>

fun Contains :: "string \<Rightarrow> string \<Rightarrow> bool" where
  "Contains [] substr = (substr = [])"
| "Contains (c # cs) substr = (prefix substr (c # cs) \<or> Contains cs substr)"

text \<open>\<^verbatim>\<open>strings.Split(s, sep)\<close> for a separator of one character (the source splits
  at a newline only): the pieces between the separators, at least one piece.\<close>

fun Split :: "string \<Rightarrow> char \<Rightarrow> string list" where
  "Split [] sep = [[]]"
| "Split (c # cs) sep =
     (if c = sep then [] # Split cs sep
      else (case Split cs sep of [] \<Rightarrow> [[c]] | l # ls \<Rightarrow> (c # l) # ls))"

section \<open>Checksums\<close>

text \<open>
  \<^verbatim>\<open>sha512.Sum512\<close> returns a \<^verbatim>\<open>[64]byte\<close>: an array type, whose length is part of the
  type. The digest function itself belongs to the Go standard library and is a
  parameter of the model.
\<close>

typedef digest512 = "{d :: bytes. length d = 64}"
  by (rule exI [of _ "replicate 64 0"]) simp

definition PreservedChecksumLength :: nat where
  "PreservedChecksumLength = 64"

definition hextable :: string where
  "hextable = ''0123456789abcdef''"

text \<open>\<^verbatim>\<open>hex.EncodeToString\<close>: two characters of \<open>hextable\<close> for each byte, the high
  half first (\<^verbatim>\<open>hextable[v>>4]\<close>, \<^verbatim>\<open>hextable[v&0x0f]\<close>).\<close>

fun EncodeToString :: "bytes \<Rightarrow> string" where
  "EncodeToString [] = []"
| "EncodeToString (v # vs) =
     hextable ! unat (drop_bit 4 v) # hextable ! unat (v AND 0x0f) # EncodeToString vs"

text \<open>
  \<^verbatim>\<open>GetChecksum\<close>. The slice expression \<^verbatim>\<open>[:PreservedChecksumLength]\<close> panics on a
  shorter string; the encoding of a \<^verbatim>\<open>[64]byte\<close> has 128 characters
  (\<open>EncodeToString_digest_length\<close> below), so it is \<open>take\<close>.
\<close>

definition GetChecksum :: "(bytes \<Rightarrow> digest512) \<Rightarrow> bytes \<Rightarrow> string" where
  "GetChecksum Sum512 data =
     (let checksumBytes = Sum512 data;
          checksum = take PreservedChecksumLength (EncodeToString (Rep_digest512 checksumBytes))
      in checksum)"

section \<open>The compression pipeline\<close>

text \<open>
  \<^verbatim>\<open>bytes.Reader\<close>, the one stream the package builds: a slice \<open>rd_s\<close> and the
  reading index \<open>rd_i\<close>. \<^verbatim>\<open>bytes.NewReader\<close> starts at index 0, and \<^verbatim>\<open>ioutil.ReadAll\<close>
  gets the bytes from the index on; reading a \<^verbatim>\<open>bytes.Reader\<close> never fails.
\<close>

record Reader =
  rd_s :: bytes
  rd_i :: nat

definition NewReader :: "bytes \<Rightarrow> Reader" where
  "NewReader b = \<lparr>rd_s = b, rd_i = 0\<rparr>"

definition ReadAll :: "Reader \<Rightarrow> bytes" where
  "ReadAll r = drop (rd_i r) (rd_s r)"

text \<open>
  The codec libraries (compress/gzip, pierrec/lz4, klauspost/compress/zstd) are
  parameters. A compression writer over an empty \<^verbatim>\<open>bytes.Buffer\<close> is given by what one
  \<^verbatim>\<open>Write\<close> of the data followed by \<^verbatim>\<open>Close\<close> leaves: \<open>Inl m\<close> when \<^verbatim>\<open>Write\<close> returns an
  error of message \<open>m\<close>, otherwise the bytes of the buffer. A decompression reader is
  given by what \<^verbatim>\<open>ioutil.ReadAll\<close> gets from it: an error or the decoded block. The
  constructors \<^verbatim>\<open>gzip.NewReader\<close>, \<^verbatim>\<open>zstd.NewReader\<close> and \<^verbatim>\<open>zstd.NewWriter\<close> can fail
  themselves; those of lz4 and \<^verbatim>\<open>gzip.NewWriter\<close> return no error.
\<close>

type_synonym WriteCloser = "bytes \<Rightarrow> string + bytes"
type_synonym ReadCloser = "string + bytes"

record codecs =
  gzip_NewWriter :: WriteCloser
  gzip_NewReader :: "bytes \<Rightarrow> string + ReadCloser"
  lz4_NewWriter :: WriteCloser
  lz4_NewReader :: "bytes \<Rightarrow> ReadCloser"
  zstd_NewWriter :: "string + WriteCloser"
  zstd_NewReader :: "bytes \<Rightarrow> string + ReadCloser"

text \<open>The calls that do work on a block, in the order the pipeline makes them.\<close>

datatype call =
    Call_Write string bytes
  | Call_Close string
  | Call_NewReader string bytes
  | Call_ReadAll string
  | Call_Sum512 bytes

definition newCompressionWriter :: "codecs \<Rightarrow> string \<Rightarrow> error + WriteCloser" where
  "newCompressionWriter libs method =
     (if method = ''gzip'' then Inr (gzip_NewWriter libs)
      else if method = ''lz4'' then Inr (lz4_NewWriter libs)
      else Inl (Errorf (''unsupported compression method: '' @ method)))"

definition CompressData :: "codecs \<Rightarrow> string \<Rightarrow> bytes \<Rightarrow> (error + Reader) \<times> call list" where
  "CompressData libs method data =
     (if method = ''none'' then (Inr (NewReader data), [])
      else
        (case newCompressionWriter libs method of
           Inl err \<Rightarrow> (Inl err, [])
         | Inr w \<Rightarrow>
             (case w data of
                Inl m \<Rightarrow> (Inl (Foreign m), [Call_Write method data, Call_Close method])
              | Inr buffer \<Rightarrow>
                  (Inr (NewReader buffer), [Call_Write method data, Call_Close method]))))"

text \<open>\<^verbatim>\<open>ioutil.NopCloser(r)\<close> reads what \<open>r\<close> has left.\<close>

definition newDecompressionReader ::
    "codecs \<Rightarrow> string \<Rightarrow> Reader \<Rightarrow> (error + ReadCloser) \<times> call list" where
  "newDecompressionReader libs method r =
     (if method = ''none'' then (Inr (Inr (ReadAll r)), [])
      else if method = ''gzip'' then
        (case gzip_NewReader libs (ReadAll r) of
           Inl m \<Rightarrow> (Inl (Foreign m), [Call_NewReader method (ReadAll r)])
         | Inr rc \<Rightarrow> (Inr rc, [Call_NewReader method (ReadAll r)]))
      else if method = ''lz4'' then
        (Inr (lz4_NewReader libs (ReadAll r)), [Call_NewReader method (ReadAll r)])
      else (Inl (Errorf (''unsupported decompression method: '' @ method)), []))"

definition DecompressAndVerify ::
    "codecs \<Rightarrow> (bytes \<Rightarrow> digest512) \<Rightarrow> string \<Rightarrow> Reader \<Rightarrow> string
       \<Rightarrow> (error + Reader) \<times> call list" where
  "DecompressAndVerify libs Sum512 method src checksum =
     (case newDecompressionReader libs method src of
        (Inl err, cs) \<Rightarrow> (Inl err, cs)
      | (Inr r, cs) \<Rightarrow>
          (case r of
             Inl m \<Rightarrow> (Inl (Foreign m), cs @ [Call_ReadAll method, Call_Close method])
           | Inr block \<Rightarrow>
               if GetChecksum Sum512 block \<noteq> checksum
               then (Inl (Errorf ''checksum verification failed for block''),
                     cs @ [Call_ReadAll method, Call_Sum512 block, Call_Close method])
               else (Inr (NewReader block),
                     cs @ [Call_ReadAll method, Call_Sum512 block, Call_Close method])))"

text \<open>
  The expression of the round-trip property,
  \<^verbatim>\<open>DecompressAndVerify(method, CompressData(method, data), GetChecksum(data))\<close>: the
  stream is passed on when \<^verbatim>\<open>CompressData\<close> returns no error.
\<close>

definition RoundTrip :: "codecs \<Rightarrow> (bytes \<Rightarrow> digest512) \<Rightarrow> string \<Rightarrow> bytes \<Rightarrow> error + Reader" where
  "RoundTrip libs Sum512 method data =
     (case fst (CompressData libs method data) of
        Inl err \<Rightarrow> Inl err
      | Inr stream \<Rightarrow>
          fst (DecompressAndVerify libs Sum512 method stream (GetChecksum Sum512 data)))"

text \<open>An error of the pipeline that reports an algorithm name it does not know.\<close>

definition unsupported_method :: "error \<Rightarrow> bool" where
  "unsupported_method e =
     (case e of
        Errorf msg \<Rightarrow>
          prefix ''unsupported compression method: '' msg \<or>
          prefix ''unsupported decompression method: '' msg
      | _ \<Rightarrow> False)"

definition fails_unsupported :: "error + 'a \<Rightarrow> bool" where
  "fails_unsupported res = (case res of Inl e \<Rightarrow> unsupported_method e | Inr _ \<Rightarrow> False)"

subsection \<open>The registry of package compression\<close>

text \<open>The interface \<^verbatim>\<open>Compressor\<close> and its three implementations.\<close>

record Compressor =
  compressData :: "bytes \<Rightarrow> error + Reader"
  decompressData :: "Reader \<Rightarrow> error + bytes"

definition gzip_AlgoName :: string where "gzip_AlgoName = ''gzip''"
definition zstd_AlgoName :: string where "zstd_AlgoName = ''zstd''"
definition lz4_AlgoName :: string where "lz4_AlgoName = ''lz4''"

definition written :: "WriteCloser \<Rightarrow> bytes \<Rightarrow> error + Reader" where
  "written w data =
     (case w data of Inl m \<Rightarrow> Inl (Foreign m) | Inr b \<Rightarrow> Inr (NewReader b))"

definition read_all :: "ReadCloser \<Rightarrow> error + bytes" where
  "read_all r = (case r of Inl m \<Rightarrow> Inl (Foreign m) | Inr block \<Rightarrow> Inr block)"

definition gzip_Compressor :: "codecs \<Rightarrow> Compressor" where
  "gzip_Compressor libs =
     \<lparr>compressData = written (gzip_NewWriter libs),
      decompressData = (\<lambda>src.
        case gzip_NewReader libs (ReadAll src) of
          Inl m \<Rightarrow> Inl (Foreign m)
        | Inr r \<Rightarrow> read_all r)\<rparr>"

definition zstd_Compressor :: "codecs \<Rightarrow> Compressor" where
  "zstd_Compressor libs =
     \<lparr>compressData = (\<lambda>data.
        case zstd_NewWriter libs of
          Inl m \<Rightarrow> Inl (Foreign m)
        | Inr w \<Rightarrow> written w data),
      decompressData = (\<lambda>src.
        case zstd_NewReader libs (ReadAll src) of
          Inl m \<Rightarrow> Inl (Foreign m)
        | Inr r \<Rightarrow> read_all r)\<rparr>"

definition lz4_Compressor :: "codecs \<Rightarrow> Compressor" where
  "lz4_Compressor libs =
     \<lparr>compressData = written (lz4_NewWriter libs),
      decompressData = (\<lambda>src. read_all (lz4_NewReader libs (ReadAll src)))\<rparr>"

definition Compressors :: "codecs \<Rightarrow> string \<rightharpoonup> Compressor" where
  "Compressors libs =
     [gzip_AlgoName \<mapsto> gzip_Compressor libs,
      zstd_AlgoName \<mapsto> zstd_Compressor libs,
      lz4_AlgoName \<mapsto> lz4_Compressor libs]"

section \<open>The command executor\<close>

text \<open>
  The external process runs outside the program. What \<^verbatim>\<open>execute\<close> sees of it is the
  case of its \<^verbatim>\<open>select\<close> statement that fires. Once \<^verbatim>\<open>done\<close> is closed, the variables
  \<^verbatim>\<open>output\<close> and \<^verbatim>\<open>err\<close> hold what \<^verbatim>\<open>cmd.CombinedOutput\<close> returned: \<open>Done output err\<close>.
  Once the context is done, the process has printed some text, which
  \<^verbatim>\<open>cmd.CombinedOutput\<close> keeps in a buffer of its own until it returns; the goroutine
  assigns the two variables only then, so they still hold their zero values, an
  empty slice and nil: \<open>CtxDone printed\<close>.
\<close>

datatype run =
    Done string "error option"
  | CtxDone string

text \<open>The operating system answers a command line under a timeout: a \<^verbatim>\<open>time.Duration\<close>,
  a number of nanoseconds.\<close>

type_synonym os = "int \<Rightarrow> string \<Rightarrow> string list \<Rightarrow> run"

definition cmdTimeout :: int where
  "cmdTimeout = 60 * 1000000000"

definition forceCleanupMountTimeout :: int where
  "forceCleanupMountTimeout = 30 * 1000000000"

text \<open>\<^verbatim>\<open>execute\<close>; the context argument is what happens under it.\<close>

definition execute :: "run \<Rightarrow> string \<Rightarrow> string list \<Rightarrow> string \<times> error option" where
  "execute ctx binary args =
     (case ctx of
        CtxDone printed \<Rightarrow>
          (let output = []; err = None
           in ([], Some (Errorf (''timeout executing: '' @ binary @ '' '' @ fmt_strings args @
                  '', output '' @ output @ '', error '' @ fmt_error err))))
      | Done output err \<Rightarrow>
          if err \<noteq> None
          then ([], Some (Errorf (''failed to execute: '' @ binary @ '' '' @ fmt_strings args @
                  '', output '' @ output @ '', error '' @ fmt_error err)))
          else (output, None))"

definition Execute :: "os \<Rightarrow> string \<Rightarrow> string list \<Rightarrow> string \<times> error option" where
  "Execute system binary args = execute (system cmdTimeout binary args) binary args"




section \<open>Mount points\<close>

text \<open>The loop of \<^verbatim>\<open>IsMounted\<close> over the lines of the output.\<close>

fun IsMounted_lines :: "string list \<Rightarrow> string \<Rightarrow> bool" where
  "IsMounted_lines [] mountPoint = False"
| "IsMounted_lines (line # lines) mountPoint =
     (if Contains line ('' '' @ mountPoint @ '' '') then True
      else IsMounted_lines lines mountPoint)"

definition IsMounted :: "os \<Rightarrow> string \<Rightarrow> bool" where
  "IsMounted system mountPoint =
     (case Execute system ''mount'' [] of
        (output, err) \<Rightarrow>
          if err \<noteq> None then False
          else IsMounted_lines (Split output (CHR 0x0A)) mountPoint)"

text \<open>
  The fields of \<^verbatim>\<open>filesystem.Mount\<close> (github.com/google/fscrypt) that name the mount.
\<close>

record Mount =
  Path :: string
  FilesystemType :: string
  Device :: string

text \<open>
  The mounter, the packages \<^verbatim>\<open>mount\<close> (k8s.io/mount-utils) and \<^verbatim>\<open>fs\<close> act on the state
  \<open>'w\<close> of the machine: each call returns its Go results and the state it leaves.
  \<open>MounterForceUnmounter\<close> says whether the mounter passes the type assertion
  \<^verbatim>\<open>mounter.(mount.MounterForceUnmounter)\<close>.
\<close>

record 'w mounter =
  IsMountPoint :: "string \<Rightarrow> 'w \<Rightarrow> (bool \<times> error option) \<times> 'w"
  MounterForceUnmounter :: bool

record 'w host =
  CleanupMountWithForce :: "string \<Rightarrow> int \<Rightarrow> 'w \<Rightarrow> error option \<times> 'w"
  CleanupMountPoint :: "string \<Rightarrow> 'w \<Rightarrow> error option \<times> 'w"
  GetMount :: "string \<Rightarrow> 'w \<Rightarrow> (Mount \<times> error option) \<times> 'w"

text \<open>What a call of the package does to the outside, in order: the calls of the mounter
  and of the two packages, and the lines it logs.\<close>

datatype action =
    Call_IsMountPoint string
  | Call_GetMount string
  | Call_CleanupMountWithForce string int
  | Call_CleanupMountPoint string
  | Log_Infof string
  | Log_Errorf error string

text \<open>
  \<^verbatim>\<open>cleanupMount\<close>. Where the type assertion fails, \<^verbatim>\<open>forceUnmounter\<close> is the zero value
  of its interface type, and that is the mounter \<^verbatim>\<open>mount.CleanupMountPoint\<close> receives;
  what the package does with it is the package's answer \<open>CleanupMountPoint\<close>.
\<close>

definition cleanupMount ::
    "'w host \<Rightarrow> string \<Rightarrow> 'w mounter \<Rightarrow> 'w \<Rightarrow> error option \<times> 'w \<times> action list" where
  "cleanupMount pkgs mountDir mounter w =
     (if MounterForceUnmounter mounter then
        (case CleanupMountWithForce pkgs mountDir forceCleanupMountTimeout w of
           (res, w') \<Rightarrow>
             (res, w',
              [Log_Infof (''Trying to force clean up mountpoint '' @ mountDir),
               Call_CleanupMountWithForce mountDir forceCleanupMountTimeout]))
      else
        (case CleanupMountPoint pkgs mountDir w of
           (res, w') \<Rightarrow>
             (res, w',
              [Log_Infof (''Trying to clean up mountpoint '' @ mountDir),
               Call_CleanupMountPoint mountDir])))"

text \<open>
  \<^verbatim>\<open>CheckAndCleanupMountPoint\<close>. The variable \<^verbatim>\<open>err\<close> of the source is assigned twice, by
  \<^verbatim>\<open>IsMountPoint\<close> and by \<^verbatim>\<open>fs.GetMount\<close>; every \<^verbatim>\<open>errors.Wrapf(err, ...)\<close> wraps the value
  it holds at that line.
\<close>

definition CheckAndCleanupMountPoint ::
    "'w host \<Rightarrow> string \<Rightarrow> string \<Rightarrow> 'w mounter \<Rightarrow> 'w
       \<Rightarrow> (bool \<times> error option) \<times> 'w \<times> action list" where
  "CheckAndCleanupMountPoint pkgs Kind mountDir mounter w =
     (case IsMountPoint mounter mountDir w of
        ((mounted, err), w1) \<Rightarrow>
          (case (if err \<noteq> None then cleanupMount pkgs mountDir mounter w1 else (None, w1, [])) of
             (mntErr, w2, t2) \<Rightarrow>
               (case mntErr of
                  Some e \<Rightarrow>
                    ((True, Wrapf err (''Failed to unmount corrupted mountpoint '' @ mountDir)),
                     w2,
                     Call_IsMountPoint mountDir # t2 @
                     [Log_Errorf e (''Failed to unmount corrupted mountpoint '' @ mountDir)])
                | None \<Rightarrow>
                    if \<not> mounted then ((False, None), w2, Call_IsMountPoint mountDir # t2)
                    else
                      (case GetMount pkgs mountDir w2 of
                         ((mnt, err), w3) \<Rightarrow>
                           if err \<noteq> None then
                             ((True, Wrapf err (''Failed to get mount for '' @ mountDir)),
                              w3,
                              Call_IsMountPoint mountDir # t2 @ [Call_GetMount mountDir])
                           else if Contains (FilesystemType mnt) Kind then
                             ((True, None), w3,
                              Call_IsMountPoint mountDir # t2 @ [Call_GetMount mountDir])
                           else
                             (case cleanupMount pkgs mountDir mounter w3 of
                                (mntErr, w4, t4) \<Rightarrow>
                                  (case mntErr of
                                     Some e \<Rightarrow>
                                       ((True,
                                         Wrapf err (''Failed to unmount mountpoint '' @
                                           FilesystemType mnt @ '' ('' @ mountDir @ '') for '' @
                                           Kind @ '' protocol'')),
                                        w4,
                                        Call_IsMountPoint mountDir # t2 @
                                        [Call_GetMount mountDir] @ t4 @
                                        [Log_Errorf e (''Failed to unmount mountpoint '' @
                                           FilesystemType mnt @ '' ('' @ mountDir @ '') for '' @
                                           Kind @ '' protocol'')])
                                   | None \<Rightarrow>
                                       ((False, None), w4,
                                        Call_IsMountPoint mountDir # t2 @
                                        [Call_GetMount mountDir] @ t4)))))))"

text \<open>The number of times a trace calls a cleanup function of package \<^verbatim>\<open>mount\<close>.\<close>

fun is_cleanup :: "action \<Rightarrow> bool" where
  "is_cleanup (Call_CleanupMountWithForce d t) = True"
| "is_cleanup (Call_CleanupMountPoint d) = True"
| "is_cleanup a = False"

definition cleanups :: "action list \<Rightarrow> nat" where
  "cleanups t = length (filter is_cleanup t)"

section \<open>Predicates of the properties\<close>

text \<open>
  What a codec of the library is relied on for, at one block: writing the block
  succeeds, and reading the written bytes gives the block back.
\<close>

definition codec_inverts :: "codecs \<Rightarrow> string \<Rightarrow> bytes \<Rightarrow> bool" where
  "codec_inverts libs method data =
     (if method = ''gzip'' then
        (case gzip_NewWriter libs data of
           Inl m \<Rightarrow> False
         | Inr buffer \<Rightarrow> gzip_NewReader libs buffer = Inr (Inr data))
      else if method = ''lz4'' then
        (case lz4_NewWriter libs data of
           Inl m \<Rightarrow> False
         | Inr buffer \<Rightarrow> lz4_NewReader libs buffer = Inr data)
      else True)"


section \<open>Inputs of the closed instances\<close>

text \<open>
  A codec library that stores the data behind a two-byte mark, and refuses a stream
  that does not start with its mark; a digest function of the right type; a mounter
  and packages with fixed answers over a machine whose state counts the cleanups made.
\<close>

definition stored_writer :: "byte \<Rightarrow> byte \<Rightarrow> WriteCloser" where
  "stored_writer m1 m2 data = Inr (m1 # m2 # data)"

definition stored_reader :: "byte \<Rightarrow> byte \<Rightarrow> bytes \<Rightarrow> string + ReadCloser" where
  "stored_reader m1 m2 b =
     (case b of
        x # y # block \<Rightarrow> if x = m1 \<and> y = m2 then Inr (Inr block) else Inl ''invalid header''
      | _ \<Rightarrow> Inl ''unexpected EOF'')"

definition stored_codecs :: codecs where
  "stored_codecs =
     \<lparr>gzip_NewWriter = stored_writer 0x1f 0x8b,
      gzip_NewReader = stored_reader 0x1f 0x8b,
      lz4_NewWriter = stored_writer 0x04 0x22,
      lz4_NewReader = (\<lambda>b. case stored_reader 0x04 0x22 b of Inl m \<Rightarrow> Inl m | Inr r \<Rightarrow> r),
      zstd_NewWriter = Inr (stored_writer 0x28 0xb5),
      zstd_NewReader = stored_reader 0x28 0xb5\<rparr>"

definition zero_Sum512 :: "bytes \<Rightarrow> digest512" where
  "zero_Sum512 data = Abs_digest512 (replicate 64 0)"

definition fixed_mounter :: "bool \<times> error option \<Rightarrow> bool \<Rightarrow> nat mounter" where
  "fixed_mounter probe force =
     \<lparr>IsMountPoint = (\<lambda>dir w. (probe, w)), MounterForceUnmounter = force\<rparr>"

definition fixed_host :: "error option \<Rightarrow> Mount \<times> error option \<Rightarrow> nat host" where
  "fixed_host cleanup mnt =
     \<lparr>CleanupMountWithForce = (\<lambda>dir timeout w. (cleanup, Suc w)),
      CleanupMountPoint = (\<lambda>dir w. (cleanup, Suc w)),
      GetMount = (\<lambda>dir w. (mnt, w))\<rparr>"

definition nfs_mount :: Mount where
  "nfs_mount = \<lparr>Path = ''/mnt/backup'', FilesystemType = ''nfs4'', Device = ''server:/export''\<rparr>"

text \<open>An operating system whose \<^verbatim>\<open>mount\<close> command hangs after it has printed a line, one
  where it lists two mounts, and one that has no such command.\<close>

definition hung_mount :: os where
  "hung_mount timeout binary args = CtxDone ''/dev/sda1 on /mnt type ext4 (rw)''"

definition listed_mount :: os where
  "listed_mount timeout binary args =
     Done (''/dev/sda1 on /mnt type ext4 (rw)'' @ [CHR 0x0A] @
           ''proc on /proc type proc (rw)'' @ [CHR 0x0A]) None"

definition failed_mount :: os where
  "failed_mount timeout binary args =
     Done ''mount: command not found'' (Some (Foreign ''exit status 127''))"

section \<open>Properties of the checksum\<close>

lemma length_EncodeToString: "length (EncodeToString bs) = 2 * length bs"
  by (induction bs) simp_all

lemma EncodeToString_digest_length: "length (EncodeToString (Rep_digest512 d)) = 128"
  using Rep_digest512 [of d] by (simp add: length_EncodeToString)

lemma high_nibble_less: "unat (drop_bit 4 (v :: byte)) < 16"
proof -
  have "unat (drop_bit 4 v) = unat v div 2 ^ 4"
    by (simp add: drop_bit_eq_div unat_div)
  moreover have "unat v < 2 ^ 8"
    using unsigned_less [of v] by simp
  ultimately show ?thesis by simp
qed

lemma low_nibble_less: "unat ((v :: byte) AND 0x0f) < 16"
proof -
  have "v AND 0x0f \<le> 0x0f"
    by (rule word_and_le1)
  then have "unat (v AND 0x0f) \<le> unat (0x0f :: byte)"
    by (simp only: word_le_nat_alt)
  then show ?thesis by simp
qed

lemma hextable_nth: "n < 16 \<Longrightarrow> hextable ! n \<in> set hextable"
  by (rule nth_mem) (simp add: hextable_def)

lemma set_EncodeToString: "set (EncodeToString bs) \<subseteq> set hextable"
  by (induction bs) (simp_all add: hextable_nth high_nibble_less low_nibble_less)

text \<open>Code equations for the digest type, so that the checksum of the closed instances
  can be computed.\<close>

lemma Abs_digest512_code [code abstype]: "Abs_digest512 (Rep_digest512 d) = d"
  by (rule Rep_digest512_inverse)

lemma Rep_zero_Sum512 [code abstract]: "Rep_digest512 (zero_Sum512 data) = replicate 64 0"
  by (simp add: zero_Sum512_def Abs_digest512_inverse)

lemma EncodeToString_zeros: "EncodeToString (replicate n 0) = replicate (2 * n) (CHR ''0'')"
  by (induction n) (simp_all add: hextable_def)

lemma GetChecksum_zero: "GetChecksum zero_Sum512 data = replicate 64 (CHR ''0'')"
  by (simp add: GetChecksum_def PreservedChecksumLength_def Rep_zero_Sum512 EncodeToString_zeros)

text \<open>
  C8. For every byte slice, the empty one included, \<^verbatim>\<open>GetChecksum\<close> returns a string
  of exactly 64 characters, each a lowercase hexadecimal digit, and the string is
  the first half of a wider digest text: the 128 characters that encode the 64 bytes
  of the SHA-512 digest.
\<close>

theorem GetChecksum_shape:
  "length (GetChecksum Sum512 data) = 64 \<and>
   set (GetChecksum Sum512 data) \<subseteq> set ''0123456789abcdef'' \<and>
   GetChecksum Sum512 data = take 64 (EncodeToString (Rep_digest512 (Sum512 data))) \<and>
   length (EncodeToString (Rep_digest512 (Sum512 data))) = 128"
proof -
  let ?full = "EncodeToString (Rep_digest512 (Sum512 data))"
  have full: "length ?full = 128"
    by (rule EncodeToString_digest_length)
  have sum: "GetChecksum Sum512 data = take 64 ?full"
    by (simp add: GetChecksum_def PreservedChecksumLength_def)
  have "set (take 64 ?full) \<subseteq> set ?full"
    by (rule set_take_subset)
  also have "\<dots> \<subseteq> set hextable"
    by (rule set_EncodeToString)
  finally have "set (take 64 ?full) \<subseteq> set ''0123456789abcdef''"
    by (simp only: hextable_def)
  with full sum show ?thesis by simp
qed

text \<open>
  The instance at the empty slice, for a digest function that returns 64 zero bytes:
  the checksum is 64 times the digit 0.
\<close>

theorem GetChecksum_shape_empty:
  "GetChecksum zero_Sum512 [] = replicate 64 (CHR ''0'') \<and>
   length (GetChecksum zero_Sum512 []) = 64 \<and>
   set (GetChecksum zero_Sum512 []) \<subseteq> set ''0123456789abcdef''"
  using GetChecksum_shape [of zero_Sum512 "[]"] GetChecksum_zero [of "[]"] by blast

section \<open>Properties of the compression pipeline\<close>

lemma newCompressionWriter_unknown:
  "method \<noteq> ''gzip'' \<Longrightarrow> method \<noteq> ''lz4'' \<Longrightarrow>
   newCompressionWriter libs method = Inl (Errorf (''unsupported compression method: '' @ method))"
  by (simp add: newCompressionWriter_def)

lemma CompressData_unknown:
  "method \<noteq> ''none'' \<Longrightarrow> method \<noteq> ''gzip'' \<Longrightarrow> method \<noteq> ''lz4'' \<Longrightarrow>
   CompressData libs method data =
     (Inl (Errorf (''unsupported compression method: '' @ method)), [])"
  by (simp add: CompressData_def newCompressionWriter_unknown)

lemma newDecompressionReader_unknown:
  "method \<noteq> ''none'' \<Longrightarrow> method \<noteq> ''gzip'' \<Longrightarrow> method \<noteq> ''lz4'' \<Longrightarrow>
   newDecompressionReader libs method src =
     (Inl (Errorf (''unsupported decompression method: '' @ method)), [])"
  by (simp add: newDecompressionReader_def)

lemma DecompressAndVerify_unknown:
  "method \<noteq> ''none'' \<Longrightarrow> method \<noteq> ''gzip'' \<Longrightarrow> method \<noteq> ''lz4'' \<Longrightarrow>
   DecompressAndVerify libs Sum512 method src checksum =
     (Inl (Errorf (''unsupported decompression method: '' @ method)), [])"
  by (simp add: DecompressAndVerify_def newDecompressionReader_unknown)

lemma unsupported_method_compression:
  "unsupported_method (Errorf (''unsupported compression method: '' @ method))"
  by (simp add: unsupported_method_def)

lemma unsupported_method_decompression:
  "unsupported_method (Errorf (''unsupported decompression method: '' @ method))"
  by (simp add: unsupported_method_def)

lemma unsupported_method_Foreign: "\<not> unsupported_method (Foreign m)"
  by (simp add: unsupported_method_def)

lemma unsupported_method_checksum:
  "\<not> unsupported_method (Errorf ''checksum verification failed for block'')"
  by (simp add: unsupported_method_def)

lemma CompressData_unknown_fails:
  assumes "method \<noteq> ''none''" "method \<noteq> ''gzip''" "method \<noteq> ''lz4''"
  shows "fails_unsupported (fst (CompressData libs method data))"
  by (simp only: CompressData_unknown [OF assms] fst_conv fails_unsupported_def sum.case
      unsupported_method_compression)

lemma DecompressAndVerify_unknown_fails:
  assumes "method \<noteq> ''none''" "method \<noteq> ''gzip''" "method \<noteq> ''lz4''"
  shows "fails_unsupported (fst (DecompressAndVerify libs Sum512 method src checksum))"
  by (simp only: DecompressAndVerify_unknown [OF assms] fst_conv fails_unsupported_def sum.case
      unsupported_method_decompression)

lemma CompressData_known:
  "method = ''none'' \<or> method = ''gzip'' \<or> method = ''lz4'' \<Longrightarrow>
   \<not> fails_unsupported (fst (CompressData libs method data))"
  by (auto simp add: CompressData_def newCompressionWriter_def fails_unsupported_def
      unsupported_method_Foreign split: sum.splits)

lemma DecompressAndVerify_known:
  "method = ''none'' \<or> method = ''gzip'' \<or> method = ''lz4'' \<Longrightarrow>
   \<not> fails_unsupported (fst (DecompressAndVerify libs Sum512 method src checksum))"
  by (auto simp add: DecompressAndVerify_def newDecompressionReader_def fails_unsupported_def
      unsupported_method_Foreign unsupported_method_checksum split: sum.splits)

text \<open>
  C7. For every name outside \<^verbatim>\<open>"none"\<close>, \<^verbatim>\<open>"gzip"\<close>, \<^verbatim>\<open>"zstd"\<close>, \<^verbatim>\<open>"lz4"\<close> and every
  input, \<^verbatim>\<open>CompressData\<close> and \<^verbatim>\<open>DecompressAndVerify\<close> both fail with the error of an
  unsupported method, and they have made no call that works on the block by then:
  nothing was written to a codec, nothing read from the source, no checksum computed.
\<close>

theorem unknown_method_no_work:
  assumes "method \<notin> {''none'', ''gzip'', ''zstd'', ''lz4''}"
  shows "CompressData libs method data =
           (Inl (Errorf (''unsupported compression method: '' @ method)), []) \<and>
         DecompressAndVerify libs Sum512 method src checksum =
           (Inl (Errorf (''unsupported decompression method: '' @ method)), []) \<and>
         fails_unsupported (fst (CompressData libs method data)) \<and>
         fails_unsupported (fst (DecompressAndVerify libs Sum512 method src checksum))"
proof -
  from assms have ne: "method \<noteq> ''none''" "method \<noteq> ''gzip''" "method \<noteq> ''lz4''"
    by simp_all
  show ?thesis
    using CompressData_unknown [OF ne] DecompressAndVerify_unknown [OF ne]
      CompressData_unknown_fails [OF ne] DecompressAndVerify_unknown_fails [OF ne]
    by blast
qed

text \<open>
  The instance at the name \<^verbatim>\<open>"bogus"\<close>.
\<close>

theorem unknown_method_no_work_bogus:
  "''bogus'' \<notin> {''none'', ''gzip'', ''zstd'', ''lz4''} \<and>
   CompressData stored_codecs ''bogus'' [1, 2, 3] =
     (Inl (Errorf ''unsupported compression method: bogus''), []) \<and>
   DecompressAndVerify stored_codecs zero_Sum512 ''bogus'' (NewReader [1, 2, 3]) ''00'' =
     (Inl (Errorf ''unsupported decompression method: bogus''), [])"
  using unknown_method_no_work [of "''bogus''" stored_codecs "[1, 2, 3]" zero_Sum512
      "NewReader [1, 2, 3]" "''00''"]
  by simp

lemma dom_Compressors: "dom (Compressors libs) = {''gzip'', ''zstd'', ''lz4''}"
  by (auto simp add: Compressors_def gzip_AlgoName_def zstd_AlgoName_def lz4_AlgoName_def)

lemma zstd_registered: "''zstd'' \<in> dom (Compressors libs)"
  by (simp add: dom_Compressors)

text \<open>
  C4, as the code has it. The pipeline of package util accepts exactly the names
  \<^verbatim>\<open>"none"\<close>, \<^verbatim>\<open>"gzip"\<close> and \<^verbatim>\<open>"lz4"\<close>: for these, and for no other name,
  \<^verbatim>\<open>CompressData\<close> and \<^verbatim>\<open>DecompressAndVerify\<close> do not fail with the error of an
  unsupported method. The name \<^verbatim>\<open>"zstd"\<close> is a key of the registry \<^verbatim>\<open>Compressors\<close> only.
\<close>

theorem pipeline_names:
  "(\<not> fails_unsupported (fst (CompressData libs method data))) =
     (method \<in> {''none'', ''gzip'', ''lz4''}) \<and>
   (\<not> fails_unsupported (fst (DecompressAndVerify libs Sum512 method src checksum))) =
     (method \<in> {''none'', ''gzip'', ''lz4''}) \<and>
   ''zstd'' \<in> dom (Compressors libs)"
proof (cases "method = ''none'' \<or> method = ''gzip'' \<or> method = ''lz4''")
  case True
  then have "method \<in> {''none'', ''gzip'', ''lz4''}"
    by blast
  then show ?thesis
    using CompressData_known [OF True] DecompressAndVerify_known [OF True]
      zstd_registered [of libs]
    by blast
next
  case False
  then have ne: "method \<noteq> ''none''" "method \<noteq> ''gzip''" "method \<noteq> ''lz4''"
    by simp_all
  then have "method \<notin> {''none'', ''gzip'', ''lz4''}"
    by blast
  then show ?thesis
    using CompressData_unknown_fails [OF ne] DecompressAndVerify_unknown_fails [OF ne]
      zstd_registered [of libs]
    by blast
qed

text \<open>
  The instance at \<^verbatim>\<open>"gzip"\<close>.
\<close>

theorem pipeline_names_gzip:
  "\<not> fails_unsupported (fst (CompressData stored_codecs ''gzip'' [1, 2, 3])) \<and>
   \<not> fails_unsupported
     (fst (DecompressAndVerify stored_codecs zero_Sum512 ''gzip'' (NewReader [1]) ''00''))"
  using pipeline_names [of stored_codecs "''gzip''" "[1, 2, 3]" zero_Sum512 "NewReader [1]" "''00''"]
  by simp

text \<open>
  The claim as it was stated fails at \<^verbatim>\<open>"zstd"\<close>: both functions report an unsupported
  method.
\<close>

theorem pipeline_names_zstd:
  "fails_unsupported (fst (CompressData stored_codecs ''zstd'' [1, 2, 3])) \<and>
   fails_unsupported
     (fst (DecompressAndVerify stored_codecs zero_Sum512 ''zstd'' (NewReader [0x28, 0xb5, 1]) ''00''))"
  by (simp add: CompressData_unknown DecompressAndVerify_unknown fails_unsupported_def
      unsupported_method_def)

lemma ReadAll_NewReader: "ReadAll (NewReader b) = b"
  by (simp add: ReadAll_def NewReader_def)

lemma RoundTrip_none: "RoundTrip libs Sum512 ''none'' data = Inr (NewReader data)"
  by (simp add: RoundTrip_def CompressData_def DecompressAndVerify_def
      newDecompressionReader_def ReadAll_NewReader)

lemma RoundTrip_gzip:
  assumes "codec_inverts libs ''gzip'' data"
  shows "RoundTrip libs Sum512 ''gzip'' data = Inr (NewReader data)"
proof -
  from assms obtain buffer where w: "gzip_NewWriter libs data = Inr buffer"
    and r: "gzip_NewReader libs buffer = Inr (Inr data)"
    by (auto simp add: codec_inverts_def split: sum.splits)
  have "fst (CompressData libs ''gzip'' data) = Inr (NewReader buffer)"
    by (simp add: CompressData_def newCompressionWriter_def w)
  moreover have "fst (DecompressAndVerify libs Sum512 ''gzip'' (NewReader buffer)
      (GetChecksum Sum512 data)) = Inr (NewReader data)"
    by (simp add: DecompressAndVerify_def newDecompressionReader_def ReadAll_NewReader r)
  ultimately show ?thesis
    by (simp add: RoundTrip_def)
qed

lemma RoundTrip_lz4:
  assumes "codec_inverts libs ''lz4'' data"
  shows "RoundTrip libs Sum512 ''lz4'' data = Inr (NewReader data)"
proof -
  from assms obtain buffer where w: "lz4_NewWriter libs data = Inr buffer"
    and r: "lz4_NewReader libs buffer = Inr data"
    by (auto simp add: codec_inverts_def split: sum.splits)
  have "fst (CompressData libs ''lz4'' data) = Inr (NewReader buffer)"
    by (simp add: CompressData_def newCompressionWriter_def w)
  moreover have "fst (DecompressAndVerify libs Sum512 ''lz4'' (NewReader buffer)
      (GetChecksum Sum512 data)) = Inr (NewReader data)"
    by (simp add: DecompressAndVerify_def newDecompressionReader_def ReadAll_NewReader r)
  ultimately show ?thesis
    by (simp add: RoundTrip_def)
qed

text \<open>
  C1, as the code has it. For the names \<^verbatim>\<open>"none"\<close>, \<^verbatim>\<open>"gzip"\<close> and \<^verbatim>\<open>"lz4"\<close> and every
  block (of any length) that the codec of the name writes and reads back,
  \<^verbatim>\<open>DecompressAndVerify(method, CompressData(method, data), GetChecksum(data))\<close>
  succeeds, and the stream it returns reads back the block.
\<close>

theorem RoundTrip_pipeline:
  assumes "method \<in> {''none'', ''gzip'', ''lz4''}"
    and "codec_inverts libs method data"
  shows "RoundTrip libs Sum512 method data = Inr (NewReader data) \<and>
         ReadAll (NewReader data) = data"
proof -
  from assms(1) consider "method = ''none''" | "method = ''gzip''" | "method = ''lz4''"
    by blast
  then have "RoundTrip libs Sum512 method data = Inr (NewReader data)"
  proof cases
    case 1
    then show ?thesis by (simp only: RoundTrip_none)
  next
    case 2
    with assms(2) show ?thesis by (simp only: RoundTrip_gzip)
  next
    case 3
    with assms(2) show ?thesis by (simp only: RoundTrip_lz4)
  qed
  then show ?thesis
    by (simp add: ReadAll_NewReader)
qed

text \<open>
  The instance at \<^verbatim>\<open>"gzip"\<close> and a block of three bytes.
\<close>

theorem RoundTrip_pipeline_gzip:
  "''gzip'' \<in> {''none'', ''gzip'', ''lz4''} \<and>
   codec_inverts stored_codecs ''gzip'' [1, 2, 3] \<and>
   RoundTrip stored_codecs zero_Sum512 ''gzip'' [1, 2, 3] = Inr (NewReader [1, 2, 3]) \<and>
   ReadAll (NewReader [1, 2, 3]) = [1, 2, 3 :: byte]"
proof -
  have m: "''gzip'' \<in> {''none'', ''gzip'', ''lz4''}"
    by simp
  have c: "codec_inverts stored_codecs ''gzip'' [1, 2, 3]"
    by (simp add: codec_inverts_def stored_codecs_def stored_writer_def stored_reader_def)
  from RoundTrip_pipeline [OF m c, of zero_Sum512] m c show ?thesis
    by blast
qed

text \<open>
  The claim as it was stated fails at the registered name \<^verbatim>\<open>"zstd"\<close>: the registry has
  a codec for it, which gives the block back, and \<^verbatim>\<open>CompressData\<close> does not know the name.
\<close>

theorem RoundTrip_zstd_fails:
  "''zstd'' \<in> dom (Compressors stored_codecs) \<and>
   compressData (zstd_Compressor stored_codecs) [1, 2, 3] =
     Inr (NewReader [0x28, 0xb5, 1, 2, 3]) \<and>
   decompressData (zstd_Compressor stored_codecs) (NewReader [0x28, 0xb5, 1, 2, 3]) =
     Inr [1, 2, 3] \<and>
   RoundTrip stored_codecs zero_Sum512 ''zstd'' [1, 2, 3] =
     Inl (Errorf ''unsupported compression method: zstd'')"
proof -
  have "compressData (zstd_Compressor stored_codecs) [1, 2, 3] =
      Inr (NewReader [0x28, 0xb5, 1, 2, 3])"
    by (simp add: zstd_Compressor_def stored_codecs_def written_def stored_writer_def)
  moreover have "decompressData (zstd_Compressor stored_codecs)
      (NewReader [0x28, 0xb5, 1, 2, 3]) = Inr [1, 2, 3]"
    by (simp add: zstd_Compressor_def stored_codecs_def read_all_def stored_reader_def
        ReadAll_NewReader)
  moreover have "RoundTrip stored_codecs zero_Sum512 ''zstd'' [1, 2, 3] =
      Inl (Errorf ''unsupported compression method: zstd'')"
    by (simp add: RoundTrip_def CompressData_unknown)
  ultimately show ?thesis
    by (simp add: dom_Compressors)
qed

section \<open>Properties of the command executor\<close>



















lemma IsMounted_error:
  "snd (Execute system ''mount'' []) \<noteq> None \<Longrightarrow> \<not> IsMounted system mountPoint"
  by (cases "Execute system ''mount'' []") (auto simp add: IsMounted_def)

lemma Execute_CtxDone:
  "system cmdTimeout binary args = CtxDone printed \<Longrightarrow> snd (Execute system binary args) \<noteq> None"
  by (simp add: Execute_def execute_def)

lemma Execute_Done_Some:
  "system cmdTimeout binary args = Done out (Some cause) \<Longrightarrow>
   snd (Execute system binary args) \<noteq> None"
  by (simp add: Execute_def execute_def)

text \<open>
  C10. \<^verbatim>\<open>IsMounted\<close> returns false whenever running \<^verbatim>\<open>mount\<close> returns an error, be it
  that the command ran out of time or that it ended with an error: the answer is
  the one it gives for a path that is not mounted.
\<close>

theorem IsMounted_false_on_error:
  "(snd (Execute system ''mount'' []) \<noteq> None \<longrightarrow> IsMounted system mountPoint = False) \<and>
   (system cmdTimeout ''mount'' [] = CtxDone printed \<longrightarrow> IsMounted system mountPoint = False) \<and>
   (system cmdTimeout ''mount'' [] = Done out (Some cause) \<longrightarrow>
      IsMounted system mountPoint = False)"
  using IsMounted_error [of system mountPoint] Execute_CtxDone [of system "''mount''" "[]" printed]
    Execute_Done_Some [of system "''mount''" "[]" out cause]
  by blast

text \<open>
  The instances at a \<^verbatim>\<open>mount\<close> that hangs after it has printed the line of \<^verbatim>\<open>/mnt\<close>
  and at one that cannot be run: the answer is false, as it is for \<^verbatim>\<open>/home\<close>, which
  the full listing does not have.
\<close>

theorem IsMounted_false_on_error_hung:
  "snd (Execute hung_mount ''mount'' []) \<noteq> None \<and>
   IsMounted hung_mount ''/mnt'' = False \<and>
   IsMounted failed_mount ''/mnt'' = False \<and>
   IsMounted listed_mount ''/mnt'' = True \<and>
   IsMounted listed_mount ''/home'' = False"
proof -
  have e: "snd (Execute hung_mount ''mount'' []) \<noteq> None"
    by (simp add: Execute_def hung_mount_def execute_def)
  have h: "hung_mount cmdTimeout ''mount'' [] = CtxDone ''/dev/sda1 on /mnt type ext4 (rw)''"
    by (simp add: hung_mount_def)
  have f: "failed_mount cmdTimeout ''mount'' [] =
      Done ''mount: command not found'' (Some (Foreign ''exit status 127''))"
    by (simp add: failed_mount_def)
  have "IsMounted listed_mount ''/mnt'' = True" "IsMounted listed_mount ''/home'' = False"
    by (simp_all add: IsMounted_def Execute_def listed_mount_def execute_def)
  with e h f
    IsMounted_false_on_error [of hung_mount "''/mnt''" "''/dev/sda1 on /mnt type ext4 (rw)''"]
    IsMounted_false_on_error [of failed_mount "''/mnt''" _ "''mount: command not found''"
      "Foreign ''exit status 127''"]
  show ?thesis
    by blast
qed

section \<open>Properties of the mount reconciliation\<close>

lemma cleanups_append: "cleanups (a @ b) = cleanups a + cleanups b"
  by (simp add: cleanups_def)

lemma cleanups_Cons: "cleanups (x # t) = (if is_cleanup x then 1 else 0) + cleanups t"
  by (simp add: cleanups_def)

lemma cleanups_Nil: "cleanups [] = 0"
  by (simp add: cleanups_def)

lemma cleanupMount_once: "cleanupMount pkgs mountDir mounter w = (res, w', t) \<Longrightarrow> cleanups t = 1"
  by (auto simp add: cleanupMount_def cleanups_def split: if_splits prod.splits)

lemma probe_not_mounted:
  assumes "IsMountPoint mounter mountDir w = ((False, None), w1)"
  shows "CheckAndCleanupMountPoint pkgs Kind mountDir mounter w =
           ((False, None), w1, [Call_IsMountPoint mountDir])"
  by (simp add: CheckAndCleanupMountPoint_def assms)

lemma probe_mounted_match:
  assumes "IsMountPoint mounter mountDir w = ((True, None), w1)"
    and "GetMount pkgs mountDir w1 = ((mnt, None), w2)"
    and "Contains (FilesystemType mnt) Kind"
  shows "CheckAndCleanupMountPoint pkgs Kind mountDir mounter w =
           ((True, None), w2, [Call_IsMountPoint mountDir, Call_GetMount mountDir])"
  by (simp add: CheckAndCleanupMountPoint_def assms)

lemma probe_mounted_mismatch:
  assumes "IsMountPoint mounter mountDir w = ((True, None), w1)"
    and "GetMount pkgs mountDir w1 = ((mnt, None), w2)"
    and "\<not> Contains (FilesystemType mnt) Kind"
    and "cleanupMount pkgs mountDir mounter w2 = (mntErr, w3, t)"
  shows "CheckAndCleanupMountPoint pkgs Kind mountDir mounter w =
           (case mntErr of
              Some e \<Rightarrow>
                ((True, None), w3,
                 [Call_IsMountPoint mountDir, Call_GetMount mountDir] @ t @
                 [Log_Errorf e (''Failed to unmount mountpoint '' @ FilesystemType mnt @
                    '' ('' @ mountDir @ '') for '' @ Kind @ '' protocol'')])
            | None \<Rightarrow>
                ((False, None), w3, [Call_IsMountPoint mountDir, Call_GetMount mountDir] @ t))"
  by (simp add: CheckAndCleanupMountPoint_def assms Wrapf_def split: option.splits)

lemma probe_mounted_mismatch_cleanups:
  assumes "IsMountPoint mounter mountDir w = ((True, None), w1)"
    and "GetMount pkgs mountDir w1 = ((mnt, None), w2)"
    and "\<not> Contains (FilesystemType mnt) Kind"
  shows "cleanups (snd (snd (CheckAndCleanupMountPoint pkgs Kind mountDir mounter w))) = 1"
proof -
  obtain mntErr w3 t where c: "cleanupMount pkgs mountDir mounter w2 = (mntErr, w3, t)"
    by (cases "cleanupMount pkgs mountDir mounter w2") blast
  from cleanupMount_once [OF c] show ?thesis
    by (simp add: probe_mounted_mismatch [OF assms c] cleanups_append cleanups_Cons cleanups_Nil
        split: option.splits)
qed

lemma IsMountPoint_fixed: "IsMountPoint (fixed_mounter probe force) dir w = (probe, w)"
  by (simp add: fixed_mounter_def)

lemma GetMount_fixed: "GetMount (fixed_host cleanup mnt) dir w = (mnt, w)"
  by (simp add: fixed_host_def)

lemma cleanupMount_fixed:
  "cleanupMount (fixed_host cleanup mnt) dir (fixed_mounter probe force) w =
     (cleanup, Suc w,
      if force then
        [Log_Infof (''Trying to force clean up mountpoint '' @ dir),
         Call_CleanupMountWithForce dir forceCleanupMountTimeout]
      else
        [Log_Infof (''Trying to clean up mountpoint '' @ dir), Call_CleanupMountPoint dir])"
  by (simp add: cleanupMount_def fixed_host_def fixed_mounter_def)

lemma FilesystemType_nfs: "FilesystemType nfs_mount = ''nfs4''"
  by (simp add: nfs_mount_def)

text \<open>
  C6. Three cases of \<^verbatim>\<open>CheckAndCleanupMountPoint\<close>. When the probe succeeds and reports
  that the directory is not mounted, the call returns \<^verbatim>\<open>(false, nil)\<close> and makes no
  cleanup. When the probe reports that it is mounted and the expected kind occurs in
  the type of the live filesystem, the call returns \<^verbatim>\<open>(true, nil)\<close> and makes no
  cleanup. When the probe reports that it is mounted and the kind does not occur in
  the type, the call makes exactly one cleanup.
\<close>

theorem CheckAndCleanupMountPoint_cases:
  "(IsMountPoint mounter mountDir w = ((False, None), w1) \<longrightarrow>
      fst (CheckAndCleanupMountPoint pkgs Kind mountDir mounter w) = (False, None) \<and>
      cleanups (snd (snd (CheckAndCleanupMountPoint pkgs Kind mountDir mounter w))) = 0) \<and>
   (IsMountPoint mounter mountDir w = ((True, None), w1) \<and>
    GetMount pkgs mountDir w1 = ((mnt, None), w2) \<and>
    Contains (FilesystemType mnt) Kind \<longrightarrow>
      fst (CheckAndCleanupMountPoint pkgs Kind mountDir mounter w) = (True, None) \<and>
      cleanups (snd (snd (CheckAndCleanupMountPoint pkgs Kind mountDir mounter w))) = 0) \<and>
   (IsMountPoint mounter mountDir w = ((True, None), w1) \<and>
    GetMount pkgs mountDir w1 = ((mnt, None), w2) \<and>
    \<not> Contains (FilesystemType mnt) Kind \<longrightarrow>
      cleanups (snd (snd (CheckAndCleanupMountPoint pkgs Kind mountDir mounter w))) = 1)"
proof (intro conjI impI)
  assume "IsMountPoint mounter mountDir w = ((False, None), w1)"
  from probe_not_mounted [OF this, of pkgs Kind]
  show "fst (CheckAndCleanupMountPoint pkgs Kind mountDir mounter w) = (False, None)"
    and "cleanups (snd (snd (CheckAndCleanupMountPoint pkgs Kind mountDir mounter w))) = 0"
    by (simp_all add: cleanups_Cons cleanups_Nil)
next
  assume a: "IsMountPoint mounter mountDir w = ((True, None), w1) \<and>
    GetMount pkgs mountDir w1 = ((mnt, None), w2) \<and> Contains (FilesystemType mnt) Kind"
  then have "CheckAndCleanupMountPoint pkgs Kind mountDir mounter w =
      ((True, None), w2, [Call_IsMountPoint mountDir, Call_GetMount mountDir])"
    by (simp only: probe_mounted_match)
  then show "fst (CheckAndCleanupMountPoint pkgs Kind mountDir mounter w) = (True, None)"
    and "cleanups (snd (snd (CheckAndCleanupMountPoint pkgs Kind mountDir mounter w))) = 0"
    by (simp_all add: cleanups_Cons cleanups_Nil)
next
  assume "IsMountPoint mounter mountDir w = ((True, None), w1) \<and>
    GetMount pkgs mountDir w1 = ((mnt, None), w2) \<and> \<not> Contains (FilesystemType mnt) Kind"
  then show "cleanups (snd (snd (CheckAndCleanupMountPoint pkgs Kind mountDir mounter w))) = 1"
    by (elim conjE) (rule probe_mounted_mismatch_cleanups)
qed

text \<open>
  The three cases on a machine with an NFS mount; its state counts one cleanup in the
  third.
\<close>

theorem CheckAndCleanupMountPoint_cases_fixed:
  "fst (CheckAndCleanupMountPoint (fixed_host None (nfs_mount, None)) ''nfs'' ''/mnt/backup''
          (fixed_mounter (False, None) True) 0) = (False, None) \<and>
   cleanups (snd (snd (CheckAndCleanupMountPoint (fixed_host None (nfs_mount, None)) ''nfs''
          ''/mnt/backup'' (fixed_mounter (False, None) True) 0))) = 0 \<and>
   fst (CheckAndCleanupMountPoint (fixed_host None (nfs_mount, None)) ''nfs'' ''/mnt/backup''
          (fixed_mounter (True, None) True) 0) = (True, None) \<and>
   cleanups (snd (snd (CheckAndCleanupMountPoint (fixed_host None (nfs_mount, None)) ''nfs''
          ''/mnt/backup'' (fixed_mounter (True, None) True) 0))) = 0 \<and>
   cleanups (snd (snd (CheckAndCleanupMountPoint (fixed_host None (nfs_mount, None)) ''cifs''
          ''/mnt/backup'' (fixed_mounter (True, None) True) 0))) = 1 \<and>
   fst (snd (CheckAndCleanupMountPoint (fixed_host None (nfs_mount, None)) ''cifs''
          ''/mnt/backup'' (fixed_mounter (True, None) True) 0)) = 1"
proof -
  let ?pkgs = "fixed_host None (nfs_mount, None)"
  have match: "Contains (FilesystemType nfs_mount) ''nfs''"
    by (simp add: FilesystemType_nfs)
  have mismatch: "\<not> Contains (FilesystemType nfs_mount) ''cifs''"
    by (simp add: FilesystemType_nfs)
  have world: "fst (snd (CheckAndCleanupMountPoint ?pkgs ''cifs'' ''/mnt/backup''
      (fixed_mounter (True, None) True) 0)) = 1"
    using mismatch
    by (simp add: CheckAndCleanupMountPoint_def IsMountPoint_fixed GetMount_fixed
        cleanupMount_fixed)
  from CheckAndCleanupMountPoint_cases [of "fixed_mounter (False, None) True" "''/mnt/backup''" 0 0
      ?pkgs "''nfs''"]
    CheckAndCleanupMountPoint_cases [of "fixed_mounter (True, None) True" "''/mnt/backup''" 0 0
      ?pkgs "''nfs''" nfs_mount 0]
    CheckAndCleanupMountPoint_cases [of "fixed_mounter (True, None) True" "''/mnt/backup''" 0 0
      ?pkgs  "''cifs''" nfs_mount 0]
    match mismatch world
  show ?thesis
    by (simp add: IsMountPoint_fixed GetMount_fixed)
qed

text \<open>
  C2, as the code has it by design. When the probe reports that the directory is
  mounted, the type of the live filesystem does not match the expected kind and the
  cleanup fails, the call returns the boolean true, after one cleanup, and the last
  thing it does is to log the failure of the cleanup.
\<close>

theorem stale_cleanup_failure:
  assumes "IsMountPoint mounter mountDir w = ((True, None), w1)"
    and "GetMount pkgs mountDir w1 = ((mnt, None), w2)"
    and "\<not> Contains (FilesystemType mnt) Kind"
    and "cleanupMount pkgs mountDir mounter w2 = (Some e, w3, t)"
  shows "fst (fst (CheckAndCleanupMountPoint pkgs Kind mountDir mounter w)) = True \<and>
         cleanups (snd (snd (CheckAndCleanupMountPoint pkgs Kind mountDir mounter w))) = 1 \<and>
         last (snd (snd (CheckAndCleanupMountPoint pkgs Kind mountDir mounter w))) =
           Log_Errorf e (''Failed to unmount mountpoint '' @ FilesystemType mnt @
             '' ('' @ mountDir @ '') for '' @ Kind @ '' protocol'')"
  using cleanupMount_once [OF assms(4)]
  by (simp add: probe_mounted_mismatch [OF assms] cleanups_append cleanups_Cons cleanups_Nil)

text \<open>
  The instance at an NFS mount where a CIFS one is expected, a mounter that can force
  an unmount, and a device that is busy.
\<close>

theorem stale_cleanup_failure_busy:
  "fst (fst (CheckAndCleanupMountPoint (fixed_host (Some (Foreign ''device busy''))
          (nfs_mount, None)) ''cifs'' ''/mnt/backup'' (fixed_mounter (True, None) True) 0)) = True \<and>
   cleanups (snd (snd (CheckAndCleanupMountPoint (fixed_host (Some (Foreign ''device busy''))
          (nfs_mount, None)) ''cifs'' ''/mnt/backup'' (fixed_mounter (True, None) True) 0))) = 1 \<and>
   last (snd (snd (CheckAndCleanupMountPoint (fixed_host (Some (Foreign ''device busy''))
          (nfs_mount, None)) ''cifs'' ''/mnt/backup'' (fixed_mounter (True, None) True) 0))) =
     Log_Errorf (Foreign ''device busy'')
       ''Failed to unmount mountpoint nfs4 (/mnt/backup) for cifs protocol''"
proof -
  let ?pkgs = "fixed_host (Some (Foreign ''device busy'')) (nfs_mount, None)"
  let ?mounter = "fixed_mounter (True, None) True"
  have p: "IsMountPoint ?mounter ''/mnt/backup'' 0 = ((True, None), 0)"
    by (rule IsMountPoint_fixed)
  have g: "GetMount ?pkgs ''/mnt/backup'' 0 = ((nfs_mount, None), 0)"
    by (rule GetMount_fixed)
  have k: "\<not> Contains (FilesystemType nfs_mount) ''cifs''"
    by (simp add: FilesystemType_nfs)
  have c: "cleanupMount ?pkgs ''/mnt/backup'' ?mounter 0 =
      (Some (Foreign ''device busy''), Suc 0,
       [Log_Infof (''Trying to force clean up mountpoint '' @ ''/mnt/backup''),
        Call_CleanupMountWithForce ''/mnt/backup'' forceCleanupMountTimeout])"
    by (simp add: cleanupMount_fixed)
  from stale_cleanup_failure [OF p g k c] show ?thesis
    by (simp add: FilesystemType_nfs)
qed

text \<open>
  The claim as it was stated fails there, at a mounter that can force an unmount: the
  call returns true, and no error.
\<close>

theorem stale_cleanup_failure_fixed:
  "MounterForceUnmounter (fixed_mounter (True, None) True) \<and>
   IsMountPoint (fixed_mounter (True, None) True) ''/mnt/backup'' 0 = ((True, None), 0) \<and>
   GetMount (fixed_host (Some (Foreign ''device busy'')) (nfs_mount, None)) ''/mnt/backup'' 0 =
     ((nfs_mount, None), 0) \<and>
   \<not> Contains (FilesystemType nfs_mount) ''cifs'' \<and>
   fst (cleanupMount (fixed_host (Some (Foreign ''device busy'')) (nfs_mount, None))
          ''/mnt/backup'' (fixed_mounter (True, None) True) 0) = Some (Foreign ''device busy'') \<and>
   fst (CheckAndCleanupMountPoint (fixed_host (Some (Foreign ''device busy'')) (nfs_mount, None))
          ''cifs'' ''/mnt/backup'' (fixed_mounter (True, None) True) 0) = (True, None)"
proof -
  have "MounterForceUnmounter (fixed_mounter (True, None) True)"
    by (simp add: fixed_mounter_def)
  then show ?thesis
    by (simp add: CheckAndCleanupMountPoint_def IsMountPoint_fixed GetMount_fixed
        cleanupMount_fixed FilesystemType_nfs Wrapf_def)
qed

lemma probe_error_cleanup_failed:
  assumes "IsMountPoint mounter mountDir w = ((mounted, Some perr), w1)"
    and "cleanupMount pkgs mountDir mounter w1 = (Some cerr, w2, t)"
  shows "CheckAndCleanupMountPoint pkgs Kind mountDir mounter w =
           ((True, Some (WithMessage perr (''Failed to unmount corrupted mountpoint '' @ mountDir))),
            w2,
            Call_IsMountPoint mountDir # t @
            [Log_Errorf cerr (''Failed to unmount corrupted mountpoint '' @ mountDir)])"
  by (simp add: CheckAndCleanupMountPoint_def assms Wrapf_def)

lemma probe_error_cleanup_done:
  assumes "IsMountPoint mounter mountDir w = ((False, Some perr), w1)"
    and "cleanupMount pkgs mountDir mounter w1 = (None, w2, t)"
  shows "CheckAndCleanupMountPoint pkgs Kind mountDir mounter w =
           ((False, None), w2, Call_IsMountPoint mountDir # t)"
  by (simp add: CheckAndCleanupMountPoint_def assms)

lemma probe_error_trace:
  assumes "IsMountPoint mounter mountDir w = ((mounted, Some perr), w1)"
    and "cleanupMount pkgs mountDir mounter w1 = (res, w2, t)"
  shows "\<exists>rest. snd (snd (CheckAndCleanupMountPoint pkgs Kind mountDir mounter w)) =
           Call_IsMountPoint mountDir # t @ rest"
  by (simp add: CheckAndCleanupMountPoint_def assms split: option.splits prod.splits)

text \<open>
  C3, as the code has it. Whenever the probe returns an error, the call makes a
  cleanup. When that cleanup fails, the call returns true and an error that wraps the
  error of the probe, which stays its cause; the failure of the cleanup is logged
  only. When that cleanup succeeds and the boolean of the probe is false, the error
  of the probe is dropped and the call returns \<^verbatim>\<open>(false, nil)\<close>.
\<close>

theorem probe_error:
  assumes "IsMountPoint mounter mountDir w = ((mounted, Some perr), w1)"
    and "cleanupMount pkgs mountDir mounter w1 = (res, w2, t)"
  shows "1 \<le> cleanups (snd (snd (CheckAndCleanupMountPoint pkgs Kind mountDir mounter w))) \<and>
         (\<forall>cerr. res = Some cerr \<longrightarrow>
            fst (CheckAndCleanupMountPoint pkgs Kind mountDir mounter w) =
              (True, Some (WithMessage perr (''Failed to unmount corrupted mountpoint '' @ mountDir))) \<and>
            Cause (WithMessage perr (''Failed to unmount corrupted mountpoint '' @ mountDir)) =
              Cause perr \<and>
            last (snd (snd (CheckAndCleanupMountPoint pkgs Kind mountDir mounter w))) =
              Log_Errorf cerr (''Failed to unmount corrupted mountpoint '' @ mountDir)) \<and>
         (res = None \<and> \<not> mounted \<longrightarrow>
            fst (CheckAndCleanupMountPoint pkgs Kind mountDir mounter w) = (False, None))"
proof (intro conjI allI impI)
  from probe_error_trace [OF assms] obtain rest where
    "snd (snd (CheckAndCleanupMountPoint pkgs Kind mountDir mounter w)) =
       Call_IsMountPoint mountDir # t @ rest"
    by blast
  with cleanupMount_once [OF assms(2)]
  show "1 \<le> cleanups (snd (snd (CheckAndCleanupMountPoint pkgs Kind mountDir mounter w)))"
    by (simp add: cleanups_append cleanups_Cons)
next
  fix cerr assume "res = Some cerr"
  with assms(2) have c: "cleanupMount pkgs mountDir mounter w1 = (Some cerr, w2, t)"
    by simp
  from probe_error_cleanup_failed [OF assms(1) c]
  show "fst (CheckAndCleanupMountPoint pkgs Kind mountDir mounter w) =
      (True, Some (WithMessage perr (''Failed to unmount corrupted mountpoint '' @ mountDir)))"
    and "last (snd (snd (CheckAndCleanupMountPoint pkgs Kind mountDir mounter w))) =
      Log_Errorf cerr (''Failed to unmount corrupted mountpoint '' @ mountDir)"
    by simp_all
  show "Cause (WithMessage perr (''Failed to unmount corrupted mountpoint '' @ mountDir)) =
      Cause perr"
    by simp
next
  assume "res = None \<and> \<not> mounted"
  with assms have "IsMountPoint mounter mountDir w = ((False, Some perr), w1)"
    and "cleanupMount pkgs mountDir mounter w1 = (None, w2, t)"
    by simp_all
  from probe_error_cleanup_done [OF this]
  show "fst (CheckAndCleanupMountPoint pkgs Kind mountDir mounter w) = (False, None)"
    by simp
qed

text \<open>
  The instance at a probe that fails with a stale file handle, on a machine where the
  cleanup fails and on one where it succeeds.
\<close>

theorem probe_error_stale_handle:
  "1 \<le> cleanups (snd (snd (CheckAndCleanupMountPoint
          (fixed_host (Some (Foreign ''device busy'')) (nfs_mount, None)) ''nfs'' ''/mnt/backup''
          (fixed_mounter (False, Some (Foreign ''stale file handle'')) True) 0))) \<and>
   fst (CheckAndCleanupMountPoint
          (fixed_host (Some (Foreign ''device busy'')) (nfs_mount, None)) ''nfs'' ''/mnt/backup''
          (fixed_mounter (False, Some (Foreign ''stale file handle'')) True) 0) =
     (True, Some (WithMessage (Foreign ''stale file handle'')
        ''Failed to unmount corrupted mountpoint /mnt/backup'')) \<and>
   last (snd (snd (CheckAndCleanupMountPoint
          (fixed_host (Some (Foreign ''device busy'')) (nfs_mount, None)) ''nfs'' ''/mnt/backup''
          (fixed_mounter (False, Some (Foreign ''stale file handle'')) True) 0))) =
     Log_Errorf (Foreign ''device busy'') ''Failed to unmount corrupted mountpoint /mnt/backup'' \<and>
   fst (CheckAndCleanupMountPoint (fixed_host None (nfs_mount, None)) ''nfs'' ''/mnt/backup''
          (fixed_mounter (False, Some (Foreign ''stale file handle'')) True) 0) = (False, None)"
proof -
  let ?mounter = "fixed_mounter (False, Some (Foreign ''stale file handle'')) True"
  let ?busy = "fixed_host (Some (Foreign ''device busy'')) (nfs_mount, None)"
  let ?free = "fixed_host None (nfs_mount, None)"
  have p: "IsMountPoint ?mounter ''/mnt/backup'' 0 =
      ((False, Some (Foreign ''stale file handle'')), 0)"
    by (rule IsMountPoint_fixed)
  have b: "cleanupMount ?busy ''/mnt/backup'' ?mounter 0 =
      (Some (Foreign ''device busy''), Suc 0,
       [Log_Infof (''Trying to force clean up mountpoint '' @ ''/mnt/backup''),
        Call_CleanupMountWithForce ''/mnt/backup'' forceCleanupMountTimeout])"
    by (simp add: cleanupMount_fixed)
  have f: "cleanupMount ?free ''/mnt/backup'' ?mounter 0 =
      (None, Suc 0,
       [Log_Infof (''Trying to force clean up mountpoint '' @ ''/mnt/backup''),
        Call_CleanupMountWithForce ''/mnt/backup'' forceCleanupMountTimeout])"
    by (simp add: cleanupMount_fixed)
  from probe_error [OF p b, of "''nfs''"] probe_error [OF p f, of "''nfs''"] show ?thesis
    by simp
qed

text \<open>
  The claim as it was stated fails where the cleanup succeeds: no error is returned.
\<close>

theorem probe_error_cleanup_success_fixed:
  "IsMountPoint (fixed_mounter (False, Some (Foreign ''stale file handle'')) True)
     ''/mnt/backup'' 0 = ((False, Some (Foreign ''stale file handle'')), 0) \<and>
   fst (cleanupMount (fixed_host None (nfs_mount, None)) ''/mnt/backup''
          (fixed_mounter (False, Some (Foreign ''stale file handle'')) True) 0) = None \<and>
   fst (CheckAndCleanupMountPoint (fixed_host None (nfs_mount, None)) ''nfs'' ''/mnt/backup''
          (fixed_mounter (False, Some (Foreign ''stale file handle'')) True) 0) = (False, None)"
  by (simp add: CheckAndCleanupMountPoint_def IsMountPoint_fixed cleanupMount_fixed)

end
